theory Spec2Isabelle
  imports Complex_Main "HOL-Library.Sublist" "HOL-Library.Log_Nat"
begin

section \<open>Strings\<close>

text \<open>
  JavaScript strings are modelled as \<^typ>\<open>string\<close>. Every pattern the reporter searches
  for is ASCII, so searching bytes and searching UTF-16 code units agree.

  \<open>str_includes s p\<close> is \<^verbatim>\<open>s.includes(p)\<close>: the pattern is tried at every position of
  \<open>s\<close>, from left to right.
\<close>

fun str_includes :: "string \<Rightarrow> string \<Rightarrow> bool" where
  "str_includes [] p = (p = [])"
| "str_includes (c # cs) p = (prefix p (c # cs) \<or> str_includes cs p)"

text \<open>\<^verbatim>\<open>x || ''\<close> for a value that is a string or \<^verbatim>\<open>undefined\<close>.\<close>

definition or_empty :: "string option \<Rightarrow> string" where
  "or_empty x = (case x of None \<Rightarrow> [] | Some s \<Rightarrow> if s = [] then [] else s)"

section \<open>Records of the reporter\<close>

text \<open>
  \<^verbatim>\<open>testData\<close> of \<^verbatim>\<open>onTestEnd\<close>; \<^verbatim>\<open>error\<close> and \<^verbatim>\<open>file\<close> come from optional chaining
  and may be \<^verbatim>\<open>undefined\<close>. The fields \<^verbatim>\<open>duration\<close> and \<^verbatim>\<open>startTime\<close> are not read by
  the healing functions and are left out.
\<close>

record failed_test =
  ft_testId :: string
  ft_title :: string
  ft_project :: string
  ft_status :: string
  ft_error :: "string option"
  ft_file :: "string option"

text \<open>The object \<^verbatim>\<open>runPlaywrightDebug\<close> resolves with.\<close>

record debug_result =
  dr_success :: bool
  dr_stdout :: string
  dr_stderr :: string
  dr_log :: string
  dr_error :: "string option"

text \<open>The object \<^verbatim>\<open>analyzeFailureAndCreateStrategy\<close> returns.\<close>

record strategy =
  strategy_type :: string
  strategy_fixes :: "string list"
  strategy_reason :: string

section \<open>Failure analysis\<close>

definition analyzeFailureAndCreateStrategy :: "failed_test \<Rightarrow> debug_result \<Rightarrow> strategy" where
  "analyzeFailureAndCreateStrategy failedTest debugResult =
    (let error = or_empty (ft_error failedTest);
         log = or_empty (Some (dr_log debugResult))
     in
       if str_includes error ''Test timeout'' \<or> str_includes error ''30000ms exceeded'' then
         \<lparr> strategy_type = ''timeout'',
           strategy_fixes = [''increase_timeout'', ''add_wait_conditions'', ''optimize_selectors''],
           strategy_reason =
             ''Test is timing out - likely due to slow loading or incorrect wait conditions'' \<rparr>
       else if str_includes error ''strict mode violation'' \<or> str_includes error ''multiple elements'' then
         \<lparr> strategy_type = ''selector'',
           strategy_fixes =
             [''add_exact_matching'', ''improve_selector_specificity'', ''add_unique_locators''],
           strategy_reason = ''Multiple elements match selector - need more specific locators'' \<rparr>
       else if str_includes error ''Element not found'' \<or> str_includes error ''not visible'' then
         \<lparr> strategy_type = ''element_missing'',
           strategy_fixes = [''update_selectors'', ''add_wait_for_element'', ''check_page_structure''],
           strategy_reason =
             ''Element selectors need updating - page structure may have changed'' \<rparr>
       else if str_includes error ''page.goto'' \<or> str_includes error ''navigation'' then
         \<lparr> strategy_type = ''navigation'',
           strategy_fixes =
             [''add_retry_logic'', ''increase_navigation_timeout'', ''add_network_conditions''],
           strategy_reason = ''Navigation issues - network or page loading problems'' \<rparr>
       else
         \<lparr> strategy_type = ''unknown'',
           strategy_fixes = [],
           strategy_reason = ''Unable to determine failure cause'' \<rparr>)"

section \<open>Regular expressions of the patch functions\<close>

text \<open>
  The patches use five regular expressions, all built from literal text and a greedy
  negated one-character class \<^verbatim>\<open>[^c]+\<close>. A pattern is the list of its atoms.
  \<open>rx_match\<close> matches a pattern at the start of a string the way a backtracking matcher
  does: the class first takes the longest run and gives characters back one at a time until
  the rest of the pattern matches. It returns the text each atom matched and the rest of
  the string.
\<close>

datatype rx = Lit string | NotCharPlus char

fun first_some :: "('a \<Rightarrow> 'b option) \<Rightarrow> 'a list \<Rightarrow> 'b option" where
  "first_some f [] = None"
| "first_some f (k # ks) = (case f k of Some r \<Rightarrow> Some r | None \<Rightarrow> first_some f ks)"

primrec rx_match :: "rx list \<Rightarrow> string \<Rightarrow> (string list \<times> string) option" where
  "rx_match [] s = Some ([], s)"
| "rx_match (r # rs) s =
     (case r of
        Lit p \<Rightarrow>
          if prefix p s
          then map_option (\<lambda>(ms, rest). (p # ms, rest)) (rx_match rs (drop (length p) s))
          else None
      | NotCharPlus c \<Rightarrow>
          first_some
            (\<lambda>k. map_option (\<lambda>(ms, rest). (take k s # ms, rest)) (rx_match rs (drop k s)))
            (rev [1 ..< Suc (length (takeWhile (\<lambda>x. x \<noteq> c) s))]))"

text \<open>
  \<^verbatim>\<open>content.replace(/.../g, replacement)\<close>: the string is scanned from the left; where
  the pattern matches, the replacement (a function of the matched atoms, for \<^verbatim>\<open>$1\<close>)
  is emitted and the scan goes on after the match; elsewhere the character is copied. A
  match of no characters is followed by one copied character, as the \<^verbatim>\<open>lastIndex\<close> rule
  of a global regular expression requires.
\<close>

fun replace_all :: "rx list \<Rightarrow> (string list \<Rightarrow> string) \<Rightarrow> string \<Rightarrow> string" where
  "replace_all rs f [] =
     (case rx_match rs [] of Some (ms, rest) \<Rightarrow> f ms | None \<Rightarrow> [])"
| "replace_all rs f (c # cs) =
     (case rx_match rs (c # cs) of
        Some (ms, rest) \<Rightarrow>
          if length rest < Suc (length cs) then f ms @ replace_all rs f rest
          else f ms @ c # replace_all rs f cs
      | None \<Rightarrow> c # replace_all rs f cs)"

text \<open>The text of the \<open>i\<close>-th atom of a match; empty when there is no such atom.\<close>

definition group :: "nat \<Rightarrow> string list \<Rightarrow> string" where
  "group i ms = (if i < length ms then ms ! i else [])"

abbreviation sq :: char where
  "sq \<equiv> CHR 0x27"

abbreviation nl :: char where
  "nl \<equiv> CHR 0x0A"

section \<open>The patch functions\<close>

definition applyTimeoutFixes :: "string \<Rightarrow> string" where
  "applyTimeoutFixes content =
     (let content =
            (if \<not> str_includes content ''test.setTimeout''
             then replace_all [Lit ''test(''] (\<lambda>ms. ''test.setTimeout(60000);'' @ [nl] @ ''  test('') content
             else content);
          content = replace_all [Lit ''await page.goto(''] (\<lambda>ms. ''await page.goto('') content
      in content)"

definition applySelectorFixes :: "string \<Rightarrow> string" where
  "applySelectorFixes content =
     (let content =
            replace_all [Lit (''getByText('' @ [sq]), NotCharPlus sq, Lit (sq # '')'')]
              (\<lambda>ms. ''getByText('' @ [sq] @ group 1 ms @ [sq] @ '', { exact: true })'') content;
          content =
            replace_all [Lit (''page.locator('' @ [sq]), NotCharPlus sq, Lit (sq # '')'')]
              (\<lambda>ms. ''page.locator('' @ [sq] @ group 1 ms @ [sq] @ '').first()'') content
      in content)"

text \<open>
  In \<^verbatim>\<open>/await (page\.[^;]+\.click\(\))/g\<close> the group \<^verbatim>\<open>$1\<close> is everything after
  \<^verbatim>\<open>await \<close>, that is the atoms 1, 2 and 3.
\<close>

definition applyElementFixes :: "string \<Rightarrow> string" where
  "applyElementFixes content =
     replace_all [Lit ''await '', Lit ''page.'', NotCharPlus CHR '';'', Lit ''.click()'']
       (\<lambda>ms. let g1 = group 1 ms @ group 2 ms @ group 3 ms
             in ''await '' @ g1 @ ''.waitFor({ state: \"visible\" });'' @ [nl] @ ''    await '' @ g1)
       content"

definition applyNavigationFixes :: "string \<Rightarrow> string" where
  "applyNavigationFixes content =
     replace_all [Lit (''page.goto('' @ [sq]), NotCharPlus sq, Lit (sq # '')'')]
       (\<lambda>ms. ''page.goto('' @ [sq] @ group 1 ms @ [sq] @ '', { waitUntil: 'load', timeout: 60000 })'')
       content"

definition applyGeneralFixes :: "string \<Rightarrow> string" where
  "applyGeneralFixes content =
     (if \<not> str_includes content ''test.slow()''
      then replace_all [Lit ''test(''] (\<lambda>ms. ''test.slow();'' @ [nl] @ ''  test('') content
      else content)"

text \<open>
  The \<^verbatim>\<open>switch\<close> of \<^verbatim>\<open>applyTestFixes\<close>: the patch function for a strategy type and the
  description pushed onto \<^verbatim>\<open>appliedFixes\<close>.
\<close>

definition patch_for :: "string \<Rightarrow> (string \<Rightarrow> string) \<times> string" where
  "patch_for t =
     (if t = ''timeout'' then
        (applyTimeoutFixes, ''Added timeout configurations and wait conditions'')
      else if t = ''selector'' then
        (applySelectorFixes, ''Improved selector specificity and exact matching'')
      else if t = ''element_missing'' then
        (applyElementFixes, ''Updated selectors and added element wait conditions'')
      else if t = ''navigation'' then
        (applyNavigationFixes, ''Enhanced navigation reliability and timeouts'')
      else
        (applyGeneralFixes, ''Added general test resilience improvements''))"

section \<open>Values read from the JSON report\<close>

text \<open>
  What \<^verbatim>\<open>JSON.parse\<close> returns. An object is the list of its properties, each name once.
  A value that may be \<^verbatim>\<open>undefined\<close> is a \<open>json option\<close>. Numbers are read as
  rationals; only whether a number is zero matters below.
\<close>

datatype json =
  JNull
| JBool bool
| JNumber rat
| JString string
| JArray "json list"
| JObject "(string \<times> json) list"

text \<open>
  \<^verbatim>\<open>v.name\<close> for a value \<open>v\<close> that is neither \<^verbatim>\<open>null\<close> nor \<^verbatim>\<open>undefined\<close> and one
  of the names the reporter reads (\<^verbatim>\<open>suites\<close>, \<^verbatim>\<open>specs\<close>, \<^verbatim>\<open>tests\<close>, \<^verbatim>\<open>results\<close>,
  \<^verbatim>\<open>status\<close>, \<^verbatim>\<open>duration\<close>, \<^verbatim>\<open>error\<close>, \<^verbatim>\<open>message\<close>): only an object can have such a
  property; no prototype defines one of them.
\<close>

fun get_prop :: "string \<Rightarrow> json \<Rightarrow> json option" where
  "get_prop name (JObject kvs) = map_of kvs name"
| "get_prop name v = None"

text \<open>
  \<^verbatim>\<open>v[0]\<close> for such a value: the first element of an array, the property \<^verbatim>\<open>"0"\<close> of an
  object, the first character of a string.
\<close>

fun get_index0 :: "json \<Rightarrow> json option" where
  "get_index0 (JArray xs) = (case xs of [] \<Rightarrow> None | x # _ \<Rightarrow> Some x)"
| "get_index0 (JObject kvs) = map_of kvs ''0''"
| "get_index0 (JString s) = (case s of [] \<Rightarrow> None | c # _ \<Rightarrow> Some (JString [c]))"
| "get_index0 v = None"

text \<open>Optional chaining \<^verbatim>\<open>x?.p\<close>: \<^verbatim>\<open>undefined\<close> when \<open>x\<close> is \<^verbatim>\<open>null\<close> or \<^verbatim>\<open>undefined\<close>.\<close>

fun opt_chain :: "json option \<Rightarrow> (json \<Rightarrow> json option) \<Rightarrow> json option" where
  "opt_chain None p = None"
| "opt_chain (Some JNull) p = None"
| "opt_chain (Some v) p = p v"

fun truthy :: "json \<Rightarrow> bool" where
  "truthy JNull = False"
| "truthy (JBool b) = b"
| "truthy (JNumber n) = (n \<noteq> 0)"
| "truthy (JString s) = (s \<noteq> [])"
| "truthy (JArray xs) = True"
| "truthy (JObject kvs) = True"

text \<open>\<^verbatim>\<open>x || d\<close>.\<close>

fun js_or :: "json option \<Rightarrow> json \<Rightarrow> json" where
  "js_or None d = d"
| "js_or (Some v) d = (if truthy v then v else d)"

section \<open>The environment\<close>

text \<open>
  How a call \<^verbatim>\<open>exec(command, {cwd: process.cwd(), timeout}, callback)\<close> ends: either
  evaluating the call raises before any process outcome exists (\<^verbatim>\<open>process.cwd()\<close> or the
  validation of the arguments), or the callback is called once with \<^verbatim>\<open>error\<close> (here the
  message of the error, absent for \<^verbatim>\<open>null\<close>), \<^verbatim>\<open>stdout\<close> and \<^verbatim>\<open>stderr\<close>. A process
  that exits abnormally or is killed at the timeout calls the callback with an error.
\<close>

datatype exec_outcome =
  ExecThrew string
| ExecCallback "string option" string string

text \<open>
  The outside world is a state \<open>'w\<close> and the library functions that read and change it.
  A function that can raise returns the message of the error on the left.
\<close>

record 'w sys =
  exec :: "string \<Rightarrow> nat \<Rightarrow> 'w \<Rightarrow> exec_outcome \<times> 'w"
  readFileSync :: "string option \<Rightarrow> 'w \<Rightarrow> string + string"
  writeFileSync :: "string option \<Rightarrow> string \<Rightarrow> 'w \<Rightarrow> string option \<times> 'w"
  JSON_parse :: "string \<Rightarrow> string + json"

datatype 'a promise = Resolved 'a | Rejected string

section \<open>Running a single test\<close>

definition debugCommand :: "string \<Rightarrow> string" where
  "debugCommand testId =
     ''npx playwright test --grep \"'' @ testId @ ''\" --reporter=json --workers=1''"

definition runPlaywrightDebug :: "'w sys \<Rightarrow> string \<Rightarrow> 'w \<Rightarrow> debug_result promise \<times> 'w" where
  "runPlaywrightDebug sys testId w =
     (case exec sys (debugCommand testId) 60000 w of
        (ExecThrew msg, w') \<Rightarrow> (Rejected msg, w')
      | (ExecCallback error stdout stderr, w') \<Rightarrow>
          (Resolved
             \<lparr> dr_success = (error = None),
               dr_stdout = stdout,
               dr_stderr = stderr,
               dr_log = stdout @ [nl] @ stderr,
               dr_error = error \<rparr>, w'))"

text \<open>The object \<^verbatim>\<open>rerunSingleTest\<close> resolves with.\<close>

record verification_result =
  vr_status :: json
  vr_duration :: json
  vr_error :: "json option"
  vr_success :: bool

text \<open>
  The \<^verbatim>\<open>try\<close> block of the callback of \<^verbatim>\<open>rerunSingleTest\<close>. It raises where
  \<^verbatim>\<open>JSON.parse\<close> raises, and where the parsed document is \<^verbatim>\<open>null\<close>, whose property
  \<^verbatim>\<open>suites\<close> cannot be read (the message is the one of V8).
\<close>

definition rerun_try :: "(string \<Rightarrow> string + json) \<Rightarrow> string option \<Rightarrow> string \<Rightarrow> string + verification_result" where
  "rerun_try parse error stdout =
     (case parse stdout of
        Inl msg \<Rightarrow> Inl msg
      | Inr JNull \<Rightarrow> Inl ''Cannot read properties of null (reading 'suites')''
      | Inr jsonOutput \<Rightarrow>
          (let suites = get_prop ''suites'' jsonOutput;
               specs = opt_chain (opt_chain suites get_index0) (get_prop ''specs'');
               tests = opt_chain (opt_chain specs get_index0) (get_prop ''tests'');
               testResult = opt_chain tests get_index0;
               result0 = opt_chain (opt_chain testResult (get_prop ''results'')) get_index0;
               status = opt_chain result0 (get_prop ''status'')
           in Inr
             \<lparr> vr_status = js_or status (JString ''unknown''),
               vr_duration = js_or (opt_chain result0 (get_prop ''duration'')) (JNumber 0),
               vr_error = opt_chain (opt_chain result0 (get_prop ''error'')) (get_prop ''message''),
               vr_success = (error = None \<and> status = Some (JString ''passed'')) \<rparr>))"

text \<open>The callback with its \<^verbatim>\<open>catch\<close>: what the promise is settled with.\<close>

definition rerun_callback :: "(string \<Rightarrow> string + json) \<Rightarrow> string option \<Rightarrow> string \<Rightarrow> string \<Rightarrow> verification_result promise" where
  "rerun_callback parse error stdout stderr =
     (case rerun_try parse error stdout of
        Inr v \<Rightarrow> Resolved v
      | Inl parseError \<Rightarrow>
          Resolved
            \<lparr> vr_status = JString ''failed'',
              vr_duration = JNumber 0,
              vr_error = Some (JString (''Failed to parse test results: '' @ parseError)),
              vr_success = False \<rparr>)"

definition rerunCommand :: "string \<Rightarrow> string" where
  "rerunCommand testId = ''npx playwright test --grep \"'' @ testId @ ''\" --reporter=json''"

definition rerunSingleTest :: "'w sys \<Rightarrow> string \<Rightarrow> 'w \<Rightarrow> verification_result promise \<times> 'w" where
  "rerunSingleTest sys testId w =
     (case exec sys (rerunCommand testId) 90000 w of
        (ExecThrew msg, w') \<Rightarrow> (Rejected msg, w')
      | (ExecCallback error stdout stderr, w') \<Rightarrow>
          (rerun_callback (JSON_parse sys) error stdout stderr, w'))"

section \<open>Healing one test\<close>

text \<open>
  \<^verbatim>\<open>applyTestFixes\<close>: the whole body is a \<^verbatim>\<open>try\<close> whose \<^verbatim>\<open>catch\<close> pushes the message
  of the error. The description of the patch is pushed before the file is written.
\<close>

definition applyTestFixes :: "'w sys \<Rightarrow> string option \<Rightarrow> strategy \<Rightarrow> 'w \<Rightarrow> string list \<times> 'w" where
  "applyTestFixes sys testFile strategy w =
     (case readFileSync sys testFile w of
        Inl msg \<Rightarrow> ([''Error applying fixes: '' @ msg], w)
      | Inr testContent \<Rightarrow>
          (let (patch, description) = patch_for (strategy_type strategy);
               updatedContent = patch testContent
           in case writeFileSync sys testFile updatedContent w of
                (Some msg, w') \<Rightarrow> ([description, ''Error applying fixes: '' @ msg], w')
              | (None, w') \<Rightarrow> ([description], w')))"

text \<open>
  An element of \<^verbatim>\<open>healingResults\<close>. \<^verbatim>\<open>healSingleTest\<close> returns an object with the
  fields \<^verbatim>\<open>testId\<close>, \<^verbatim>\<open>originalError\<close>, \<^verbatim>\<open>fixStrategy\<close>, \<^verbatim>\<open>appliedFixes\<close>,
  \<^verbatim>\<open>rerunResult\<close>, \<^verbatim>\<open>success\<close>, \<^verbatim>\<open>finalStatus\<close> and \<^verbatim>\<open>healingLog\<close>; the \<^verbatim>\<open>catch\<close> of
  \<^verbatim>\<open>autoHealFailedTests\<close> pushes one with \<^verbatim>\<open>testId\<close>, \<^verbatim>\<open>success\<close>, \<^verbatim>\<open>error\<close>,
  \<^verbatim>\<open>changes\<close> and \<^verbatim>\<open>finalStatus\<close>. A field an object does not have is \<open>None\<close>.
\<close>

record healing_result =
  hr_testId :: string
  hr_originalError :: "string option"
  hr_fixStrategy :: "strategy option"
  hr_appliedFixes :: "string list option"
  hr_rerunResult :: "verification_result option"
  hr_success :: bool
  hr_finalStatus :: json
  hr_healingLog :: "string option"
  hr_error :: "string option"
  hr_changes :: "string list option"

text \<open>
  \<^verbatim>\<open>healSingleTest\<close>. An \<^verbatim>\<open>await\<close> of a rejected promise raises; nothing in the
  function catches it, so the function raises too (\<open>Inl\<close>, with the message).
\<close>

definition healSingleTest :: "'w sys \<Rightarrow> failed_test \<Rightarrow> 'w \<Rightarrow> (string + healing_result) \<times> 'w" where
  "healSingleTest sys failedTest w =
     (let testFile = ft_file failedTest;
          testTitle = ft_title failedTest
      in case runPlaywrightDebug sys (ft_testId failedTest) w of
           (Rejected msg, w1) \<Rightarrow> (Inl msg, w1)
         | (Resolved debugResult, w1) \<Rightarrow>
             (let fixStrategy = analyzeFailureAndCreateStrategy failedTest debugResult;
                  (appliedFixes, w2) = applyTestFixes sys testFile fixStrategy w1
              in case rerunSingleTest sys (ft_testId failedTest) w2 of
                   (Rejected msg, w3) \<Rightarrow> (Inl msg, w3)
                 | (Resolved rerunResult, w3) \<Rightarrow>
                     (Inr
                        \<lparr> hr_testId = ft_testId failedTest,
                          hr_originalError = ft_error failedTest,
                          hr_fixStrategy = Some fixStrategy,
                          hr_appliedFixes = Some appliedFixes,
                          hr_rerunResult = Some rerunResult,
                          hr_success = (vr_status rerunResult = JString ''passed''),
                          hr_finalStatus = vr_status rerunResult,
                          hr_healingLog = Some (dr_log debugResult),
                          hr_error = None,
                          hr_changes = None \<rparr>, w3)))"

section \<open>Healing the failed tests of a run\<close>

text \<open>The object the \<^verbatim>\<open>catch\<close> in the loop of \<^verbatim>\<open>autoHealFailedTests\<close> pushes.\<close>

definition caught_result :: "failed_test \<Rightarrow> string \<Rightarrow> healing_result" where
  "caught_result failedTest message =
     \<lparr> hr_testId = ft_testId failedTest,
       hr_originalError = None,
       hr_fixStrategy = None,
       hr_appliedFixes = None,
       hr_rerunResult = None,
       hr_success = False,
       hr_finalStatus = JString ''failed'',
       hr_healingLog = None,
       hr_error = Some message,
       hr_changes = Some [] \<rparr>"

text \<open>
  The \<^verbatim>\<open>for\<close> loop of \<^verbatim>\<open>autoHealFailedTests\<close> over \<^verbatim>\<open>this.failedTests\<close>; the results are
  in the order they are pushed. The two seconds waited after a healed test change nothing
  the model holds.
\<close>

fun heal_loop :: "'w sys \<Rightarrow> failed_test list \<Rightarrow> 'w \<Rightarrow> healing_result list \<times> 'w" where
  "heal_loop sys [] w = ([], w)"
| "heal_loop sys (failedTest # rest) w =
     (case healSingleTest sys failedTest w of
        (Inr healingResult, w') \<Rightarrow>
          (let (healingResults, w'') = heal_loop sys rest w' in (healingResult # healingResults, w''))
      | (Inl message, w') \<Rightarrow>
          (let (healingResults, w'') = heal_loop sys rest w'
           in (caught_result failedTest message # healingResults, w'')))"

text \<open>
  \<^verbatim>\<open>createHealingSummaryIssue\<close> posts an issue built from the results; its whole body is a
  \<^verbatim>\<open>try\<close> whose \<^verbatim>\<open>catch\<close> returns \<^verbatim>\<open>null\<close>, and \<^verbatim>\<open>autoHealFailedTests\<close> drops what
  it returns. Only its effect on the world remains, which \<open>post\<close> stands for.
\<close>

definition autoHealFailedTests :: "'w sys \<Rightarrow> (healing_result list \<Rightarrow> 'w \<Rightarrow> 'w) \<Rightarrow> failed_test list \<Rightarrow> 'w \<Rightarrow> healing_result list \<times> 'w" where
  "autoHealFailedTests sys post failedTests w =
     (let (healingResults, w') = heal_loop sys failedTests w
      in (healingResults, post healingResults w'))"

section \<open>The healing summary\<close>

text \<open>
  Numbers are IEEE doubles. The counts are integers far below \<open>2\<^sup>5\<^sup>3\<close> and exact; a
  quotient or a product is the exact result rounded to the nearest double, ties to the
  even mantissa. \<open>double_round\<close> is that rounding for a value in the range of the normal
  doubles, where a double is an integer of 53 bits times a power of two; the quotient of
  two counts and its product with 100 never leave that range.

  \<open>binary_exponent q\<close> is the exponent \<open>e\<close> with \<open>2\<^sup>e \<le> q < 2\<^sup>e\<^sup>+\<^sup>1\<close>, for \<open>q > 0\<close>: the
  difference of the bit lengths of numerator and denominator, or one less.
\<close>

definition binary_exponent :: "rat \<Rightarrow> int" where
  "binary_exponent q =
     (let (a, b) = quotient_of q;
          k = int (floorlog 2 (nat a)) - int (floorlog 2 (nat b))
      in if 2 powi k \<le> q then k else k - 1)"

definition round_half_even :: "rat \<Rightarrow> int" where
  "round_half_even m =
     (let f = \<lfloor>m\<rfloor>; d = m - of_int f
      in if d < 1 / 2 then f
         else if 1 / 2 < d then f + 1
         else if even f then f else f + 1)"

definition double_round :: "rat \<Rightarrow> rat" where
  "double_round q =
     (if q = 0 then 0
      else let ulp = 2 powi (binary_exponent \<bar>q\<bar> - 52)
           in of_int (round_half_even (q / ulp)) * ulp)"

text \<open>\<^verbatim>\<open>Math.round\<close>: the nearest integer, a tie going up.\<close>

definition Math_round :: "rat \<Rightarrow> int" where
  "Math_round y = \<lfloor>y + 1 / 2\<rfloor>"

text \<open>
  \<^verbatim>\<open>generateHealingSummary\<close> builds the text of the report. The model keeps the four values
  the overview block interpolates: \<^verbatim>\<open>healed\<close>, \<^verbatim>\<open>failed\<close>, the number of attempts and the
  rate \<^verbatim>\<open>Math.round((healed / healingResults.length) * 100)\<close>, which is \<^verbatim>\<open>NaN\<close> (here
  \<open>None\<close>) for an empty list. The lines about the single results are not modelled.
\<close>

record healing_overview =
  ov_healed :: nat
  ov_failed :: int
  ov_total :: nat
  ov_rate :: "int option"

definition generateHealingSummary :: "healing_result list \<Rightarrow> healing_overview" where
  "generateHealingSummary healingResults =
     (let healed = length (filter hr_success healingResults);
          failed = int (length healingResults) - int healed
      in \<lparr> ov_healed = healed,
           ov_failed = failed,
           ov_total = length healingResults,
           ov_rate =
             (if length healingResults = 0 then None
              else Some (Math_round (double_round
                     (double_round (of_nat healed / of_nat (length healingResults)) * 100)))) \<rparr>)"

section \<open>The classifier as the specification words it\<close>

text \<open>
  The specification describes classification as an ordered list of rules, each a set of
  patterns with a category, the first rule with a pattern occurring anywhere in the message
  deciding; no rule, or no message, gives \<open>Unknown\<close>. The definitions below follow that
  wording, with \<^const>\<open>sublist\<close> for "occurs as a substring".
\<close>

datatype failure_category =
  Timeout | SelectorAmbiguity | ElementMissing | NavigationFailure | Unknown

fun type_name :: "failure_category \<Rightarrow> string" where
  "type_name Timeout = ''timeout''"
| "type_name SelectorAmbiguity = ''selector''"
| "type_name ElementMissing = ''element_missing''"
| "type_name NavigationFailure = ''navigation''"
| "type_name Unknown = ''unknown''"

definition priority_rules :: "(string list \<times> failure_category) list" where
  "priority_rules =
    [([''Test timeout'', ''30000ms exceeded''], Timeout),
     ([''strict mode violation'', ''multiple elements''], SelectorAmbiguity),
     ([''Element not found'', ''not visible''], ElementMissing),
     ([''page.goto'', ''navigation''], NavigationFailure)]"

fun first_matching_rule :: "(string list \<times> failure_category) list \<Rightarrow> string \<Rightarrow> failure_category" where
  "first_matching_rule [] msg = Unknown"
| "first_matching_rule ((pats, cat) # rules) msg =
     (if list_ex (\<lambda>p. sublist p msg) pats then cat else first_matching_rule rules msg)"

definition classify_by_priority :: "string option \<Rightarrow> failure_category" where
  "classify_by_priority errorMessage =
     (case errorMessage of
        None \<Rightarrow> Unknown
      | Some msg \<Rightarrow> first_matching_rule priority_rules msg)"

text \<open>
  The input the specification gives the classifier in the orchestrator: the error of the
  debug run when it produced one, the record's error otherwise.
\<close>

definition fresh_error_preferred :: "failed_test \<Rightarrow> debug_result \<Rightarrow> string option" where
  "fresh_error_preferred failedTest debugResult =
     (case dr_error debugResult of
        Some e \<Rightarrow> Some e
      | None \<Rightarrow> ft_error failedTest)"

section \<open>An example environment\<close>

text \<open>
  A small world for the instances below: the files are an association list; a command
  that names \<^verbatim>\<open>VAL-000\<close> makes \<^verbatim>\<open>exec\<close> raise, one that names \<^verbatim>\<open>VAL-002\<close> or
  \<^verbatim>\<open>VAL-003\<close> ends with an error and no report (for \<^verbatim>\<open>VAL-003\<close> the error is a
  timeout), the debug run of \<^verbatim>\<open>VAL-004\<close> prints a report of a passed test and its rerun
  prints text that is not JSON, and every other command prints a report of a passed test.
\<close>

definition report_with :: "(string \<times> json) list \<Rightarrow> json" where
  "report_with result =
     JObject [(''suites'', JArray [JObject [(''specs'', JArray [JObject [(''tests'',
       JArray [JObject [(''results'', JArray [JObject result])]])]])]])]"

definition example_parse :: "string \<Rightarrow> string + json" where
  "example_parse s =
     (if s = ''passed.json'' then
        Inr (report_with [(''status'', JString ''passed''), (''duration'', JNumber 1200)])
      else if s = ''failed.json'' then
        Inr (report_with [(''status'', JString ''failed''), (''duration'', JNumber 900),
                          (''error'', JObject [(''message'', JString ''Element not found'')])])
      else Inl ''Unexpected end of JSON input'')"

definition example_sys :: "((string \<times> string) list) sys" where
  "example_sys =
     \<lparr> exec = (\<lambda>command timeout w.
         if str_includes command ''VAL-000''
         then (ExecThrew ''ENOENT: no such file or directory, uv_cwd'', w)
         else if str_includes command ''VAL-002''
         then (ExecCallback (Some ''Command failed'') [] ''killed'', w)
         else if str_includes command ''VAL-003''
         then (ExecCallback (Some ''Command failed: Test timeout of 30000ms exceeded.'') []
                 ''Test timeout of 30000ms exceeded.'', w)
         else if str_includes command ''VAL-004''
         then (if str_includes command ''--workers=1''
               then (ExecCallback None ''passed.json'' [], w)
               else (ExecCallback None ''not json'' [], w))
         else (ExecCallback None ''passed.json'' [], w)),
       readFileSync = (\<lambda>file w.
         case file of
           None \<Rightarrow> Inl ''The path argument must be of type string''
         | Some path \<Rightarrow>
             (case map_of w path of
                None \<Rightarrow> Inl ''ENOENT: no such file or directory''
              | Some content \<Rightarrow> Inr content)),
       writeFileSync = (\<lambda>file content w.
         case file of
           None \<Rightarrow> (Some ''The path argument must be of type string'', w)
         | Some path \<Rightarrow> (None, (path, content) # w)),
       JSON_parse = example_parse \<rparr>"

definition example_test :: "string \<Rightarrow> string \<Rightarrow> failed_test" where
  "example_test testId message =
     \<lparr> ft_testId = testId, ft_title = testId @ '': a test'', ft_project = ''chromium'',
       ft_status = ''failed'', ft_error = Some message, ft_file = Some ''a.spec.ts'' \<rparr>"

definition example_healed :: healing_result where
  "example_healed =
     \<lparr> hr_testId = ''VAL-001'', hr_originalError = Some ''Test timeout of 30000ms exceeded.'',
       hr_fixStrategy = None, hr_appliedFixes = Some [], hr_rerunResult = None,
       hr_success = True, hr_finalStatus = JString ''passed'', hr_healingLog = Some [],
       hr_error = None, hr_changes = None \<rparr>"

definition example_unhealed :: healing_result where
  "example_unhealed = caught_result (example_test ''VAL-000'' ''boom'') ''ENOENT''"

lemmas example_defs = example_sys_def example_parse_def example_test_def report_with_def
  healSingleTest_def runPlaywrightDebug_def rerunSingleTest_def rerun_callback_def rerun_try_def
  applyTestFixes_def debugCommand_def rerunCommand_def analyzeFailureAndCreateStrategy_def
  patch_for_def

section \<open>Properties of the failure analysis\<close>

lemma str_includes_sublist: "str_includes s p = sublist p s"
  by (induction s) (auto simp: sublist_Cons_right)

lemma or_empty_Some [simp]: "or_empty (Some s) = s"
  by (simp add: or_empty_def)

lemma or_empty_None [simp]: "or_empty None = []"
  by (simp add: or_empty_def)

text \<open>
  Claim C2. The type of the strategy that \<^const>\<open>analyzeFailureAndCreateStrategy\<close> returns is
  the category of the first rule, in the order Timeout, SelectorAmbiguity, ElementMissing,
  NavigationFailure, one of whose patterns occurs somewhere in the record's error message;
  it is \<open>unknown\<close> when no rule matches or the record has no error message.
\<close>

theorem analyze_follows_priority_order:
  "strategy_type (analyzeFailureAndCreateStrategy failedTest debugResult) =
     type_name (classify_by_priority (ft_error failedTest))"
proof (cases "ft_error failedTest")
  case None
  then show ?thesis
    by (simp add: analyzeFailureAndCreateStrategy_def classify_by_priority_def)
next
  case (Some msg)
  then show ?thesis
    by (simp add: analyzeFailureAndCreateStrategy_def classify_by_priority_def
        priority_rules_def str_includes_sublist Let_def)
qed

text \<open>An instance: the second scenario of the specification.\<close>

theorem analyze_follows_priority_order_witness:
  "strategy_type (analyzeFailureAndCreateStrategy
      (example_test ''VAL-001'' ''strict mode violation: locator resolved to 3 elements'')
      \<lparr> dr_success = False, dr_stdout = [], dr_stderr = [], dr_log = [nl], dr_error = None \<rparr>)
     = ''selector''"
  using analyze_follows_priority_order
    [of "example_test ''VAL-001'' ''strict mode violation: locator resolved to 3 elements''"
        "\<lparr> dr_success = False, dr_stdout = [], dr_stderr = [], dr_log = [nl], dr_error = None \<rparr>"]
  by (simp add: example_test_def classify_by_priority_def priority_rules_def sublist_code)

text \<open>The five classification scenarios of the specification, on the code.\<close>

lemma classification_scenarios:
  "strategy_type (analyzeFailureAndCreateStrategy
     (example_test ''VAL-001'' ''Test timeout of 30000ms exceeded'') d) = ''timeout''"
  "strategy_type (analyzeFailureAndCreateStrategy
     (example_test ''VAL-001'' ''strict mode violation: locator resolved to 3 elements'') d) = ''selector''"
  "strategy_type (analyzeFailureAndCreateStrategy
     (example_test ''VAL-001'' ''Element not found: #submit'') d) = ''element_missing''"
  "strategy_type (analyzeFailureAndCreateStrategy
     (example_test ''VAL-001'' ''page.goto: net::ERR_CONNECTION_REFUSED'') d) = ''navigation''"
  "strategy_type (analyzeFailureAndCreateStrategy
     (example_test ''VAL-001'' ''assertion failed: expected 1 to equal 2'') d) = ''unknown''"
  by (simp_all add: analyzeFailureAndCreateStrategy_def example_test_def)

section \<open>One result for each failed test\<close>

text \<open>What the loop pushes for a test, from what \<^verbatim>\<open>healSingleTest\<close> did.\<close>

definition result_for :: "failed_test \<Rightarrow> (string + healing_result) \<Rightarrow> healing_result" where
  "result_for failedTest outcome =
     (case outcome of Inr healingResult \<Rightarrow> healingResult | Inl message \<Rightarrow> caught_result failedTest message)"

lemma fst_autoHeal: "fst (autoHealFailedTests sys post ts w) = fst (heal_loop sys ts w)"
  by (simp add: autoHealFailedTests_def split: prod.splits)

lemma heal_loop_Cons:
  "heal_loop sys (t # ts) w =
     (result_for t (fst (healSingleTest sys t w)) # fst (heal_loop sys ts (snd (healSingleTest sys t w))),
      snd (heal_loop sys ts (snd (healSingleTest sys t w))))"
  by (auto simp: result_for_def split: prod.splits sum.splits)

lemma heal_loop_length: "length (fst (heal_loop sys ts w)) = length ts"
  by (induction ts arbitrary: w) (simp_all add: heal_loop_Cons del: heal_loop.simps(2))

lemma caught_or_healed_testId:
  "healSingleTest sys t w = (Inr r, w') \<Longrightarrow> hr_testId r = ft_testId t"
  by (auto simp: healSingleTest_def Let_def split: prod.splits promise.splits)

lemma heal_loop_testIds: "map hr_testId (fst (heal_loop sys ts w)) = map ft_testId ts"
proof (induction ts arbitrary: w)
  case Nil
  then show ?case by simp
next
  case (Cons t ts)
  have "hr_testId (result_for t (fst (healSingleTest sys t w))) = ft_testId t"
    by (cases "healSingleTest sys t w")
       (auto simp: result_for_def caught_result_def caught_or_healed_testId split: sum.splits)
  with Cons.IH show ?case
    by (simp add: heal_loop_Cons del: heal_loop.simps(2))
qed

lemma heal_loop_nth:
  "i < length ts \<Longrightarrow>
   fst (heal_loop sys ts w) ! i =
     result_for (ts ! i) (fst (healSingleTest sys (ts ! i) (snd (heal_loop sys (take i ts) w))))"
proof (induction ts arbitrary: i w)
  case Nil
  then show ?case by simp
next
  case (Cons t ts)
  show ?case
  proof (cases i)
    case 0
    then show ?thesis by (simp add: heal_loop_Cons del: heal_loop.simps(2))
  next
    case (Suc j)
    with Cons.prems have "j < length ts" by simp
    from Cons.IH [OF this] Suc show ?thesis
      by (simp add: heal_loop_Cons del: heal_loop.simps(2))
  qed
qed

text \<open>
  Claim C1. \<^const>\<open>autoHealFailedTests\<close> returns one result for each failed test, in the
  order of the tests and with the test's id. The result at a position is the one
  \<^const>\<open>healSingleTest\<close> returned for that test in the world the tests before it left; when
  \<^const>\<open>healSingleTest\<close> raised instead, it is the object of the \<^verbatim>\<open>catch\<close>, with
  \<^verbatim>\<open>success\<close> false and the message of the error, and the tests after it are healed all
  the same.
\<close>

theorem autoHeal_one_result_per_record:
  "length (fst (autoHealFailedTests sys post failedTests w)) = length failedTests \<and>
   map hr_testId (fst (autoHealFailedTests sys post failedTests w)) = map ft_testId failedTests \<and>
   (\<forall>i < length failedTests.
      case healSingleTest sys (failedTests ! i) (snd (heal_loop sys (take i failedTests) w)) of
        (Inr healingResult, w') \<Rightarrow>
          fst (autoHealFailedTests sys post failedTests w) ! i = healingResult
      | (Inl message, w') \<Rightarrow>
          fst (autoHealFailedTests sys post failedTests w) ! i =
            \<lparr> hr_testId = ft_testId (failedTests ! i), hr_originalError = None,
              hr_fixStrategy = None, hr_appliedFixes = None, hr_rerunResult = None,
              hr_success = False, hr_finalStatus = JString ''failed'', hr_healingLog = None,
              hr_error = Some message, hr_changes = Some [] \<rparr>)"
proof (intro conjI allI impI)
  show "length (fst (autoHealFailedTests sys post failedTests w)) = length failedTests"
    by (simp add: fst_autoHeal heal_loop_length)
  show "map hr_testId (fst (autoHealFailedTests sys post failedTests w)) = map ft_testId failedTests"
    by (simp add: fst_autoHeal heal_loop_testIds)
next
  fix i assume "i < length failedTests"
  from heal_loop_nth [OF this, of sys w]
  show "case healSingleTest sys (failedTests ! i) (snd (heal_loop sys (take i failedTests) w)) of
        (Inr healingResult, w') \<Rightarrow>
          fst (autoHealFailedTests sys post failedTests w) ! i = healingResult
      | (Inl message, w') \<Rightarrow>
          fst (autoHealFailedTests sys post failedTests w) ! i =
            \<lparr> hr_testId = ft_testId (failedTests ! i), hr_originalError = None,
              hr_fixStrategy = None, hr_appliedFixes = None, hr_rerunResult = None,
              hr_success = False, hr_finalStatus = JString ''failed'', hr_healingLog = None,
              hr_error = Some message, hr_changes = Some [] \<rparr>"
    by (auto simp: fst_autoHeal result_for_def caught_result_def split: prod.splits sum.splits)
qed

text \<open>
  An instance: the first of two tests cannot be healed, because \<^verbatim>\<open>exec\<close> raises; the
  second is healed.
\<close>

theorem autoHeal_one_result_per_record_witness:
  "length (fst (autoHealFailedTests example_sys (\<lambda>results w. w)
      [example_test ''VAL-000'' ''boom'', example_test ''VAL-001'' ''Test timeout'']
      [(''a.spec.ts'', ''test(1)'')])) = 2 \<and>
   fst (autoHealFailedTests example_sys (\<lambda>results w. w)
      [example_test ''VAL-000'' ''boom'', example_test ''VAL-001'' ''Test timeout'']
      [(''a.spec.ts'', ''test(1)'')]) ! 0 =
     \<lparr> hr_testId = ''VAL-000'', hr_originalError = None,
       hr_fixStrategy = None, hr_appliedFixes = None, hr_rerunResult = None,
       hr_success = False, hr_finalStatus = JString ''failed'', hr_healingLog = None,
       hr_error = Some ''ENOENT: no such file or directory, uv_cwd'', hr_changes = Some [] \<rparr> \<and>
   hr_success (fst (autoHealFailedTests example_sys (\<lambda>results w. w)
      [example_test ''VAL-000'' ''boom'', example_test ''VAL-001'' ''Test timeout'']
      [(''a.spec.ts'', ''test(1)'')]) ! 1)"
proof -
  let ?ts = "[example_test ''VAL-000'' ''boom'', example_test ''VAL-001'' ''Test timeout'']"
  let ?w = "[(''a.spec.ts'', ''test(1)'')]"
  let ?rs = "fst (autoHealFailedTests example_sys (\<lambda>results w. w) ?ts ?w)"
  note T = autoHeal_one_result_per_record [of example_sys "\<lambda>results w. w" ?ts ?w]
  have h0: "healSingleTest example_sys (example_test ''VAL-000'' ''boom'') ?w =
      (Inl ''ENOENT: no such file or directory, uv_cwd'', ?w)"
    by (simp add: example_defs)
  have h1: "fst (healSingleTest example_sys (example_test ''VAL-001'' ''Test timeout'') ?w) = Inr r
      \<Longrightarrow> hr_success r" for r
    by (auto simp add: example_defs Let_def)
  from T have len: "length ?rs = 2" by simp
  from T have at0: "case healSingleTest example_sys (?ts ! 0) (snd (heal_loop example_sys (take 0 ?ts) ?w)) of
        (Inr healingResult, w') \<Rightarrow> ?rs ! 0 = healingResult
      | (Inl message, w') \<Rightarrow> ?rs ! 0 =
            \<lparr> hr_testId = ft_testId (?ts ! 0), hr_originalError = None,
              hr_fixStrategy = None, hr_appliedFixes = None, hr_rerunResult = None,
              hr_success = False, hr_finalStatus = JString ''failed'', hr_healingLog = None,
              hr_error = Some message, hr_changes = Some [] \<rparr>"
    by (metis length_Cons zero_less_Suc)
  from T have at1: "case healSingleTest example_sys (?ts ! 1) (snd (heal_loop example_sys (take 1 ?ts) ?w)) of
        (Inr healingResult, w') \<Rightarrow> ?rs ! 1 = healingResult
      | (Inl message, w') \<Rightarrow> ?rs ! 1 =
            \<lparr> hr_testId = ft_testId (?ts ! 1), hr_originalError = None,
              hr_fixStrategy = None, hr_appliedFixes = None, hr_rerunResult = None,
              hr_success = False, hr_finalStatus = JString ''failed'', hr_healingLog = None,
              hr_error = Some message, hr_changes = Some [] \<rparr>"
    by (metis One_nat_def length_Cons lessI list.size(3) not_less_eq zero_less_Suc)
  from at0 h0 have r0: "?rs ! 0 = \<lparr> hr_testId = ''VAL-000'', hr_originalError = None,
       hr_fixStrategy = None, hr_appliedFixes = None, hr_rerunResult = None,
       hr_success = False, hr_finalStatus = JString ''failed'', hr_healingLog = None,
       hr_error = Some ''ENOENT: no such file or directory, uv_cwd'', hr_changes = Some [] \<rparr>"
    by (simp add: example_test_def)
  have w1: "snd (heal_loop example_sys (take 1 ?ts) ?w) = ?w"
    using h0 by simp
  from at1 w1 h1 have r1: "hr_success (?rs ! 1)"
    by (auto split: prod.splits sum.splits simp: example_defs Let_def)
  from len r0 r1 show ?thesis by blast
qed

section \<open>Success of a healing result\<close>

text \<open>
  Claim C3. A result of \<^const>\<open>healSingleTest\<close> comes from these steps: the debug run
  resolved, the file was patched with the strategy of the analysis, and
  \<^const>\<open>rerunSingleTest\<close>, run in the world the patch left, resolved with the rerun result
  the record holds. \<^verbatim>\<open>success\<close> is true exactly when the status of that rerun result is
  the string \<^verbatim>\<open>passed\<close>, and \<^verbatim>\<open>finalStatus\<close> is that status. In particular, when the
  output of that rerun is text \<^verbatim>\<open>JSON.parse\<close> rejects, \<^verbatim>\<open>success\<close> is false.
\<close>

theorem healSingleTest_success_iff_passed:
  "healSingleTest sys failedTest w = (Inr r, w') \<Longrightarrow>
     (\<exists>debugResult w1 appliedFixes w2 rerunResult.
        runPlaywrightDebug sys (ft_testId failedTest) w = (Resolved debugResult, w1) \<and>
        applyTestFixes sys (ft_file failedTest)
          (analyzeFailureAndCreateStrategy failedTest debugResult) w1 = (appliedFixes, w2) \<and>
        rerunSingleTest sys (ft_testId failedTest) w2 = (Resolved rerunResult, w') \<and>
        hr_fixStrategy r = Some (analyzeFailureAndCreateStrategy failedTest debugResult) \<and>
        hr_appliedFixes r = Some appliedFixes \<and>
        hr_rerunResult r = Some rerunResult \<and>
        hr_finalStatus r = vr_status rerunResult \<and>
        hr_success r = (vr_status rerunResult = JString ''passed'') \<and>
        (\<forall>error stdout stderr w3 msg.
           exec sys (rerunCommand (ft_testId failedTest)) 90000 w2 =
             (ExecCallback error stdout stderr, w3) \<longrightarrow>
           JSON_parse sys stdout = Inl msg \<longrightarrow> \<not> hr_success r))"
proof -
  assume h: "healSingleTest sys failedTest w = (Inr r, w')"
  obtain p1 w1 where d: "runPlaywrightDebug sys (ft_testId failedTest) w = (p1, w1)"
    by (cases "runPlaywrightDebug sys (ft_testId failedTest) w")
  from h d obtain debugResult where p1: "p1 = Resolved debugResult"
    by (cases p1) (auto simp: healSingleTest_def Let_def)
  obtain appliedFixes w2 where a: "applyTestFixes sys (ft_file failedTest)
      (analyzeFailureAndCreateStrategy failedTest debugResult) w1 = (appliedFixes, w2)"
    by (cases "applyTestFixes sys (ft_file failedTest)
      (analyzeFailureAndCreateStrategy failedTest debugResult) w1")
  obtain p2 w3 where rr: "rerunSingleTest sys (ft_testId failedTest) w2 = (p2, w3)"
    by (cases "rerunSingleTest sys (ft_testId failedTest) w2")
  from h d p1 a rr obtain rerunResult where p2: "p2 = Resolved rerunResult"
    by (cases p2) (auto simp: healSingleTest_def Let_def)
  from h d p1 a rr p2 have r: "w' = w3" "hr_rerunResult r = Some rerunResult"
      "hr_finalStatus r = vr_status rerunResult"
      "hr_success r = (vr_status rerunResult = JString ''passed'')"
      "hr_fixStrategy r = Some (analyzeFailureAndCreateStrategy failedTest debugResult)"
      "hr_appliedFixes r = Some appliedFixes"
    by (auto simp: healSingleTest_def Let_def)
  have "\<not> hr_success r"
    if "exec sys (rerunCommand (ft_testId failedTest)) 90000 w2 = (ExecCallback error stdout stderr, w4)"
      and "JSON_parse sys stdout = Inl msg" for error stdout stderr w4 msg
    using that rr p2 r(4)
    by (auto simp: rerunSingleTest_def rerun_callback_def rerun_try_def)
  with d p1 a rr p2 r show ?thesis by blast
qed

text \<open>
  Two instances: a test whose rerun reports \<^verbatim>\<open>passed\<close> is healed; a test whose debug
  run is clean and whose rerun prints text that is not JSON is not.
\<close>

theorem healSingleTest_success_iff_passed_witness:
  "hr_success (projr (fst (healSingleTest example_sys (example_test ''VAL-001'' ''Test timeout'')
      [(''a.spec.ts'', ''test(1)'')]))) \<and>
   \<not> hr_success (projr (fst (healSingleTest example_sys (example_test ''VAL-004'' ''Test timeout'')
      [(''a.spec.ts'', ''test(1)'')])))"
proof -
  let ?w = "[(''a.spec.ts'', ''test(1)'')]"
  let ?t1 = "example_test ''VAL-001'' ''Test timeout''"
  let ?t4 = "example_test ''VAL-004'' ''Test timeout''"
  obtain r1 w1 where h1: "healSingleTest example_sys ?t1 ?w = (Inr r1, w1)"
    by (simp add: example_defs Let_def)
  obtain r4 w4 where h4: "healSingleTest example_sys ?t4 ?w = (Inr r4, w4)"
    by (simp add: example_defs Let_def)
  have run1: "rerunSingleTest example_sys (ft_testId ?t1) w2 = (Resolved v, w3) \<Longrightarrow>
      vr_status v = JString ''passed''" for w2 w3 v
    by (auto simp add: example_defs)
  have run4: "exec example_sys (rerunCommand (ft_testId ?t4)) 90000 w2 =
      (ExecCallback None ''not json'' [], w2)" for w2
    by (simp add: example_sys_def example_test_def rerunCommand_def)
  have p4: "JSON_parse example_sys ''not json'' = Inl ''Unexpected end of JSON input''"
    by (simp add: example_sys_def example_parse_def)
  from healSingleTest_success_iff_passed [OF h1] run1 have "hr_success r1" by blast
  moreover from healSingleTest_success_iff_passed [OF h4] run4 p4 have "\<not> hr_success r4" by blast
  ultimately show ?thesis using h1 h4 by simp
qed

section \<open>When the test runs resolve\<close>

text \<open>
  Claim C10, as stated, fails: when the call of \<^verbatim>\<open>exec\<close> itself raises, inside the
  executor of the promise, the promise is rejected; the rejection is reachable for both
  entry points.
\<close>

theorem test_runs_reject_counterexample:
  "runPlaywrightDebug example_sys ''VAL-000'' [] =
     (Rejected ''ENOENT: no such file or directory, uv_cwd'', []) \<and>
   rerunSingleTest example_sys ''VAL-000'' [] =
     (Rejected ''ENOENT: no such file or directory, uv_cwd'', [])"
  by (simp add: example_sys_def runPlaywrightDebug_def rerunSingleTest_def debugCommand_def
      rerunCommand_def)

text \<open>
  Claim C10, amended. Whenever \<^verbatim>\<open>exec\<close> calls the callback, with whatever error, output
  and error output (normal exit, abnormal exit, timeout, empty or malformed output), the
  promises of \<^const>\<open>runPlaywrightDebug\<close> and \<^const>\<open>rerunSingleTest\<close> are resolved with an
  object, and the callback of the rerun resolves on every path, the \<^verbatim>\<open>catch\<close> included.
  The promises are rejected only when the call of \<^verbatim>\<open>exec\<close> raises before any callback.
\<close>

theorem test_runs_resolve_on_callback:
  "(case exec sys (debugCommand testId) 60000 w of
      (ExecCallback err out errout, w') \<Rightarrow>
        (\<exists>d. runPlaywrightDebug sys testId w = (Resolved d, w'))
    | (ExecThrew msg, w') \<Rightarrow> runPlaywrightDebug sys testId w = (Rejected msg, w')) \<and>
   (case exec sys (rerunCommand testId) 90000 w of
      (ExecCallback err out errout, w') \<Rightarrow>
        (\<exists>v. rerunSingleTest sys testId w = (Resolved v, w'))
    | (ExecThrew msg, w') \<Rightarrow> rerunSingleTest sys testId w = (Rejected msg, w')) \<and>
   (\<exists>v. rerun_callback parse error stdout stderr = Resolved v)"
proof (intro conjI)
  show "case exec sys (debugCommand testId) 60000 w of
      (ExecCallback err out errout, w') \<Rightarrow>
        (\<exists>d. runPlaywrightDebug sys testId w = (Resolved d, w'))
    | (ExecThrew msg, w') \<Rightarrow> runPlaywrightDebug sys testId w = (Rejected msg, w')"
    by (simp add: runPlaywrightDebug_def split: prod.splits exec_outcome.splits)
  show c: "\<exists>v. rerun_callback parse error stdout stderr = Resolved v" for parse error stdout stderr
    by (simp add: rerun_callback_def split: sum.splits)
  show "case exec sys (rerunCommand testId) 90000 w of
      (ExecCallback err out errout, w') \<Rightarrow>
        (\<exists>v. rerunSingleTest sys testId w = (Resolved v, w'))
    | (ExecThrew msg, w') \<Rightarrow> rerunSingleTest sys testId w = (Rejected msg, w')"
    using c by (auto simp add: rerunSingleTest_def split: prod.splits exec_outcome.splits)
qed

theorem test_runs_resolve_on_callback_witness:
  "(\<exists>d. runPlaywrightDebug example_sys ''VAL-002'' [] = (Resolved d, [])) \<and>
   (\<exists>v. rerunSingleTest example_sys ''VAL-004'' [] = (Resolved v, []))"
proof -
  have e1: "exec example_sys (debugCommand ''VAL-002'') 60000 [] =
      (ExecCallback (Some ''Command failed'') [] ''killed'', [])"
    by (simp add: example_sys_def debugCommand_def)
  have e2: "exec example_sys (rerunCommand ''VAL-004'') 90000 [] =
      (ExecCallback None ''not json'' [], [])"
    by (simp add: example_sys_def rerunCommand_def)
  from test_runs_resolve_on_callback [of example_sys "''VAL-002''" "[]"]
    test_runs_resolve_on_callback [of example_sys "''VAL-004''" "[]"] e1 e2
  show ?thesis by simp
qed

section \<open>A report that cannot be parsed\<close>

text \<open>
  Claim C9, as stated, fails: an output that cannot be parsed gives the status
  \<^verbatim>\<open>failed\<close>, the very status of a report of a failed test, not a status of its own, and
  the error is the parse error behind a fixed prefix.
\<close>

theorem rerun_parse_failure_counterexample:
  "rerun_callback example_parse (Some ''Command failed'') ''not json'' [] =
     Resolved \<lparr> vr_status = JString ''failed'', vr_duration = JNumber 0,
       vr_error = Some (JString ''Failed to parse test results: Unexpected end of JSON input''),
       vr_success = False \<rparr> \<and>
   rerun_callback example_parse (Some ''Command failed'') ''failed.json'' [] =
     Resolved \<lparr> vr_status = JString ''failed'', vr_duration = JNumber 900,
       vr_error = Some (JString ''Element not found''),
       vr_success = False \<rparr>"
  by (simp add: example_defs)

text \<open>
  Claim C9, amended. When \<^verbatim>\<open>JSON.parse\<close> raises on the output, the rerun resolves with
  status \<^verbatim>\<open>failed\<close>, duration 0, the error \<^verbatim>\<open>Failed to parse test results: \<close> followed by
  the message of the parse error, and \<^verbatim>\<open>success\<close> false.
\<close>

theorem rerun_parse_failure_is_failed:
  "parse stdout = Inl msg \<Longrightarrow>
   rerun_callback parse error stdout stderr =
     Resolved \<lparr> vr_status = JString ''failed'', vr_duration = JNumber 0,
       vr_error = Some (JString (''Failed to parse test results: '' @ msg)),
       vr_success = False \<rparr>"
  by (simp add: rerun_callback_def rerun_try_def)

theorem rerun_parse_failure_is_failed_witness:
  "rerun_callback example_parse None ''{'' ''stack'' =
     Resolved \<lparr> vr_status = JString ''failed'', vr_duration = JNumber 0,
       vr_error = Some (JString ''Failed to parse test results: Unexpected end of JSON input''),
       vr_success = False \<rparr>"
proof -
  have "example_parse ''{'' = Inl ''Unexpected end of JSON input''"
    by (simp add: example_parse_def)
  from rerun_parse_failure_is_failed [of example_parse "''{''" _ None "''stack''"] this
  show ?thesis by simp
qed

section \<open>Fix lists and reasons of the strategies\<close>

text \<open>
  Claim C5, as stated, fails for the category Unknown: the strategy of an error that no
  pattern matches has an empty fix list.
\<close>

theorem unknown_strategy_counterexample:
  "strategy_type (analyzeFailureAndCreateStrategy
      (example_test ''VAL-001'' ''assertion failed: expected 1 to equal 2'')
      \<lparr> dr_success = False, dr_stdout = [], dr_stderr = [], dr_log = [nl], dr_error = Some ''Command failed'' \<rparr>)
     = ''unknown'' \<and>
   strategy_fixes (analyzeFailureAndCreateStrategy
      (example_test ''VAL-001'' ''assertion failed: expected 1 to equal 2'')
      \<lparr> dr_success = False, dr_stdout = [], dr_stderr = [], dr_log = [nl], dr_error = Some ''Command failed'' \<rparr>)
     = []"
  by (simp add: analyzeFailureAndCreateStrategy_def example_test_def)

text \<open>
  Claim C5, amended. Every strategy has a non-empty reason. The strategy of type
  \<^verbatim>\<open>unknown\<close> has an empty fix list; every other strategy has three fixes, none of them
  empty.
\<close>

theorem strategy_fixes_and_reason:
  "strategy_reason (analyzeFailureAndCreateStrategy failedTest debugResult) \<noteq> [] \<and>
   (if strategy_type (analyzeFailureAndCreateStrategy failedTest debugResult) = ''unknown''
    then strategy_fixes (analyzeFailureAndCreateStrategy failedTest debugResult) = []
    else length (strategy_fixes (analyzeFailureAndCreateStrategy failedTest debugResult)) = 3 \<and>
         [] \<notin> set (strategy_fixes (analyzeFailureAndCreateStrategy failedTest debugResult)))"
  by (simp add: analyzeFailureAndCreateStrategy_def Let_def)

section \<open>The error the analysis reads\<close>

text \<open>
  Claim C8 asks that the analysis reads the error of the debug run when there is one. It
  does not: \<^verbatim>\<open>healSingleTest\<close> passes the debug result to the analysis, which binds its
  log to a local and never reads it. Here the record says a missing element and the debug
  run a timeout; the classification of the fresh error would be \<^verbatim>\<open>timeout\<close>, and the
  strategy in the healing result is \<^verbatim>\<open>element_missing\<close>.
\<close>

theorem fresh_error_ignored:
  "runPlaywrightDebug example_sys ''VAL-003'' [(''a.spec.ts'', ''test(1)'')] =
     (Resolved
        \<lparr> dr_success = False, dr_stdout = [], dr_stderr = ''Test timeout of 30000ms exceeded.'',
          dr_log = nl # ''Test timeout of 30000ms exceeded.'',
          dr_error = Some ''Command failed: Test timeout of 30000ms exceeded.'' \<rparr>,
      [(''a.spec.ts'', ''test(1)'')]) \<and>
   type_name (classify_by_priority (fresh_error_preferred
      (example_test ''VAL-003'' ''Element not found: #submit'')
      \<lparr> dr_success = False, dr_stdout = [], dr_stderr = ''Test timeout of 30000ms exceeded.'',
        dr_log = nl # ''Test timeout of 30000ms exceeded.'',
        dr_error = Some ''Command failed: Test timeout of 30000ms exceeded.'' \<rparr>)) = ''timeout'' \<and>
   map_option strategy_type
     (hr_fixStrategy (projr (fst (healSingleTest example_sys
        (example_test ''VAL-003'' ''Element not found: #submit'')
        [(''a.spec.ts'', ''test(1)'')])))) = Some ''element_missing''"
proof (intro conjI)
  show "runPlaywrightDebug example_sys ''VAL-003'' [(''a.spec.ts'', ''test(1)'')] =
     (Resolved
        \<lparr> dr_success = False, dr_stdout = [], dr_stderr = ''Test timeout of 30000ms exceeded.'',
          dr_log = nl # ''Test timeout of 30000ms exceeded.'',
          dr_error = Some ''Command failed: Test timeout of 30000ms exceeded.'' \<rparr>,
      [(''a.spec.ts'', ''test(1)'')])"
    by (simp add: example_sys_def runPlaywrightDebug_def debugCommand_def)
  show "type_name (classify_by_priority (fresh_error_preferred
      (example_test ''VAL-003'' ''Element not found: #submit'')
      \<lparr> dr_success = False, dr_stdout = [], dr_stderr = ''Test timeout of 30000ms exceeded.'',
        dr_log = nl # ''Test timeout of 30000ms exceeded.'',
        dr_error = Some ''Command failed: Test timeout of 30000ms exceeded.'' \<rparr>)) = ''timeout''"
    by (simp add: fresh_error_preferred_def classify_by_priority_def priority_rules_def sublist_code)
  show "map_option strategy_type
     (hr_fixStrategy (projr (fst (healSingleTest example_sys
        (example_test ''VAL-003'' ''Element not found: #submit'')
        [(''a.spec.ts'', ''test(1)'')])))) = Some ''element_missing''"
    by (simp add: example_defs Let_def)
qed

section \<open>The timeout patch\<close>

text \<open>
  The amended reading of the timeout patch: the directive goes before every place where
  the text \<^verbatim>\<open>test(\<close> starts, not before the first one only. \<open>directive_before_each_test\<close>
  says so position by position, without the machinery of patterns.
\<close>

definition timeout_directive :: string where
  "timeout_directive = ''test.setTimeout(60000);'' @ [nl] @ ''  ''"

fun directive_before_each_test :: "string \<Rightarrow> string" where
  "directive_before_each_test [] = []"
| "directive_before_each_test (c # cs) =
     (if prefix ''test('' (c # cs)
      then timeout_directive @ c # directive_before_each_test cs
      else c # directive_before_each_test cs)"

lemma rx_match_Lit:
  "rx_match [Lit p] s = (if prefix p s then Some ([p], drop (length p) s) else None)"
  by simp

lemma replace_all_Lit_Nil:
  "p \<noteq> [] \<Longrightarrow> replace_all [Lit p] f [] = []"
  by simp

lemma replace_all_Lit_Cons:
  "p \<noteq> [] \<Longrightarrow>
   replace_all [Lit p] f (c # cs) =
     (if prefix p (c # cs) then f [p] @ replace_all [Lit p] f (drop (length p) (c # cs))
      else c # replace_all [Lit p] f cs)"
  by (cases p) auto

lemma replace_all_Lit_prefix:
  "p \<noteq> [] \<Longrightarrow> replace_all [Lit p] f (p @ r) = f [p] @ replace_all [Lit p] f r"
  by (cases p) (simp_all add: replace_all_Lit_Cons del: replace_all.simps)

lemma replace_all_Lit_noprefix:
  "p \<noteq> [] \<Longrightarrow> \<not> prefix p (c # cs) \<Longrightarrow>
     replace_all [Lit p] f (c # cs) = c # replace_all [Lit p] f cs"
  by (simp add: replace_all_Lit_Cons del: replace_all.simps)

lemma replace_all_same:
  "p \<noteq> [] \<Longrightarrow> replace_all [Lit p] (\<lambda>ms. p) s = s"
proof (induction "length s" arbitrary: s rule: less_induct)
  case less
  show ?case
  proof (cases s)
    case Nil
    with less.prems show ?thesis by (simp add: replace_all_Lit_Nil del: replace_all.simps)
  next
    case (Cons c cs)
    show ?thesis
    proof (cases "prefix p s")
      case True
      then obtain r where r: "s = p @ r" by (auto simp: prefix_def)
      with less.prems have "length r < length s" by simp
      from less.hyps [OF this less.prems] have "replace_all [Lit p] (\<lambda>ms. p) r = r" .
      then show ?thesis
        unfolding r by (simp only: replace_all_Lit_prefix [OF less.prems])
    next
      case False
      have "length cs < length s" using Cons by simp
      from less.hyps [OF this less.prems]
      have "replace_all [Lit p] (\<lambda>ms. p) cs = cs" .
      moreover from False have np: "\<not> prefix p (c # cs)" unfolding Cons .
      ultimately show ?thesis
        unfolding Cons by (simp only: replace_all_Lit_noprefix [OF less.prems np])
    qed
  qed
qed

lemma test_prefix_unfold:
  "directive_before_each_test (''test('' @ r) =
     timeout_directive @ ''test('' @ directive_before_each_test r"
  by simp

lemma replace_test_eq:
  assumes f: "\<And>ms. f ms = timeout_directive @ ''test(''"
  shows "replace_all [Lit ''test(''] f s = directive_before_each_test s"
proof (induction "length s" arbitrary: s rule: less_induct)
  case less
  have ne: "''test('' \<noteq> []" by simp
  show ?case
  proof (cases s)
    case Nil
    then show ?thesis by simp
  next
    case (Cons c cs)
    show ?thesis
    proof (cases "prefix ''test('' s")
      case True
      then obtain r where r: "s = ''test('' @ r" by (auto simp: prefix_def)
      then have "length r < length s" by simp
      from less.hyps [OF this]
      have "replace_all [Lit ''test(''] f r = directive_before_each_test r" .
      then show ?thesis
        unfolding r
        by (simp only: replace_all_Lit_prefix [OF ne] test_prefix_unfold f append_assoc)
    next
      case False
      have "length cs < length s" using Cons by simp
      from less.hyps [OF this]
      have "replace_all [Lit ''test(''] f cs = directive_before_each_test cs" .
      moreover from False have np: "\<not> prefix ''test('' (c # cs)" unfolding Cons .
      moreover from np have "directive_before_each_test (c # cs) = c # directive_before_each_test cs"
        by (simp only: directive_before_each_test.simps if_False)
      ultimately show ?thesis
        unfolding Cons by (simp only: replace_all_Lit_noprefix [OF ne np])
    qed
  qed
qed

lemma applyTimeoutFixes_unfold:
  "applyTimeoutFixes content =
     (if str_includes content ''test.setTimeout'' then content
      else replace_all [Lit ''test(''] (\<lambda>ms. ''test.setTimeout(60000);'' @ [nl] @ ''  test('') content)"
proof -
  have "replace_all [Lit ''await page.goto(''] (\<lambda>ms. ''await page.goto('') c = c" for c
    by (rule replace_all_same) simp
  then show ?thesis
    by (simp only: applyTimeoutFixes_def Let_def if_not_P if_P split: if_splits) auto
qed

text \<open>
  Claim C7, amended. When the content holds \<^verbatim>\<open>test.setTimeout\<close> anywhere,
  \<^const>\<open>applyTimeoutFixes\<close> returns it unchanged. Otherwise it puts the directive
  \<^verbatim>\<open>test.setTimeout(60000);\<close> before every occurrence of the text \<^verbatim>\<open>test(\<close>, and changes
  nothing else.
\<close>

theorem applyTimeoutFixes_before_every_test:
  "applyTimeoutFixes content =
     (if str_includes content ''test.setTimeout'' then content
      else directive_before_each_test content)"
proof -
  have "replace_all [Lit ''test(''] (\<lambda>ms. ''test.setTimeout(60000);'' @ [nl] @ ''  test('') content =
      directive_before_each_test content"
    by (rule replace_test_eq) (simp add: timeout_directive_def)
  then show ?thesis
    by (simp only: applyTimeoutFixes_unfold)
qed

text \<open>
  Claim C7, as stated, fails: on a file with two tests the directive is injected before
  the second test as well as before the first.
\<close>

theorem applyTimeoutFixes_first_only_counterexample:
  "applyTimeoutFixes ''test(a); test(b);'' =
     ''test.setTimeout(60000);'' @ [nl] @ ''  test(a); test.setTimeout(60000);'' @ [nl] @ ''  test(b);''"
  by (simp add: applyTimeoutFixes_def)

text \<open>
  An instance: an occurrence of \<^verbatim>\<open>test(\<close> inside a longer name gets the directive too, and
  a file that already sets a timeout is left alone.
\<close>

theorem applyTimeoutFixes_before_every_test_witness:
  "applyTimeoutFixes ''test(a); latest(b);'' =
     ''test.setTimeout(60000);'' @ [nl] @ ''  test(a); latest.setTimeout(60000);'' @ [nl] @ ''  test(b);'' \<and>
   applyTimeoutFixes ''test.setTimeout(5); test(a);'' = ''test.setTimeout(5); test(a);''"
  using applyTimeoutFixes_before_every_test [of "''test(a); latest(b);''"]
    applyTimeoutFixes_before_every_test [of "''test.setTimeout(5); test(a);''"]
  by (simp add: timeout_directive_def)

section \<open>Patching a patched file\<close>

text \<open>
  Claim C6 asks that patching twice gives what patching once gives. The selector patch and
  the element patch do not: on their own output they add a second \<^verbatim>\<open>.first()\<close> and
  wrap the clicks, the one they injected among them, in further waits.
\<close>

theorem selector_and_element_fixes_not_idempotent:
  "applySelectorFixes (''await page.locator('' @ [sq] @ ''#a'' @ [sq] @ '').click();'') =
     ''await page.locator('' @ [sq] @ ''#a'' @ [sq] @ '').first().click();'' \<and>
   applySelectorFixes (''await page.locator('' @ [sq] @ ''#a'' @ [sq] @ '').first().click();'') =
     ''await page.locator('' @ [sq] @ ''#a'' @ [sq] @ '').first().first().click();'' \<and>
   applyElementFixes ''await page.a.click();'' =
     ''await page.a.click().waitFor({ state: \"visible\" });'' @ [nl] @ ''    await page.a.click();'' \<and>
   applyElementFixes (''await page.a.click().waitFor({ state: \"visible\" });'' @ [nl] @ ''    await page.a.click();'') =
     ''await page.a.click().waitFor({ state: \"visible\" });'' @ [nl] @ ''    await page.a.click()''
       @ ''.waitFor({ state: \"visible\" });'' @ [nl] @
     ''    await page.a.click().waitFor({ state: \"visible\" });'' @ [nl] @ ''    await page.a.click();''"
  by (simp add: applySelectorFixes_def applyElementFixes_def group_def)

section \<open>Counts and rate of the summary\<close>

subsection \<open>The error of rounding to a double\<close>

lemma quotient_pos:
  assumes "0 < q" "quotient_of q = (a, b)"
  shows "0 < a" "0 < b" "q = of_int a / of_int b"
proof -
  from assms(2) show b: "0 < b" by (rule quotient_of_denom_pos)
  from assms(2) show q: "q = of_int a / of_int b" by (rule quotient_of_div)
  from assms(1) q b show "0 < a" by (simp add: zero_less_divide_iff)
qed

lemma floorlog_int_bounds:
  assumes "0 < (a::int)"
  shows "(2::rat) ^ (floorlog 2 (nat a) - 1) \<le> of_int a" "of_int a < (2::rat) ^ floorlog 2 (nat a)"
    "0 < floorlog 2 (nat a)"
proof -
  from assms have pos: "0 < nat a" by simp
  from floorlog_bounds [OF pos, of 2]
  have lo: "2 ^ (floorlog 2 (nat a) - 1) \<le> nat a" and hi: "nat a < 2 ^ floorlog 2 (nat a)"
    by simp_all
  from lo have "rat_of_nat (2 ^ (floorlog 2 (nat a) - 1)) \<le> rat_of_nat (nat a)"
    by (simp only: of_nat_le_iff)
  with assms show "(2::rat) ^ (floorlog 2 (nat a) - 1) \<le> of_int a" by simp
  from hi have "rat_of_nat (nat a) < rat_of_nat (2 ^ floorlog 2 (nat a))"
    by (simp only: of_nat_less_iff)
  with assms show "of_int a < (2::rat) ^ floorlog 2 (nat a)" by simp
  from pos show "0 < floorlog 2 (nat a)" by (simp add: floorlog_def)
qed

lemma binary_exponent_le:
  assumes "0 < q"
  shows "2 powi binary_exponent q \<le> q"
proof -
  obtain a b where ab: "quotient_of q = (a, b)" by (cases "quotient_of q")
  note p = quotient_pos [OF assms ab]
  let ?la = "floorlog 2 (nat a)" and ?lb = "floorlog 2 (nat b)"
  have be: "binary_exponent q =
      (if (2::rat) powi (int ?la - int ?lb) \<le> q then int ?la - int ?lb else int ?la - int ?lb - 1)"
    by (simp add: binary_exponent_def ab Let_def)
  show ?thesis
  proof (cases "(2::rat) powi (int ?la - int ?lb) \<le> q")
    case True
    then show ?thesis by (simp add: be)
  next
    case False
    note ba = floorlog_int_bounds [OF p(1)]
    note bb = floorlog_int_bounds [OF p(2)]
    have "(2::rat) powi (int ?la - int ?lb - 1) = 2 powi (int (?la - 1) - int ?lb)"
      using ba(3) by (simp add: of_nat_diff algebra_simps)
    also have "\<dots> = 2 ^ (?la - 1) / 2 ^ ?lb"
      by (simp add: power_int_diff)
    also have "\<dots> \<le> of_int a / of_int b"
      using ba(1) bb(2) p by (intro frac_le) simp_all
    finally have "(2::rat) powi (int ?la - int ?lb - 1) \<le> q"
      by (simp only: p(3))
    with False show ?thesis by (simp add: be)
  qed
qed

lemma binary_exponent_gt:
  assumes "0 < q"
  shows "q < 2 powi (binary_exponent q + 1)"
proof -
  obtain a b where ab: "quotient_of q = (a, b)" by (cases "quotient_of q")
  note p = quotient_pos [OF assms ab]
  let ?la = "floorlog 2 (nat a)" and ?lb = "floorlog 2 (nat b)"
  have be: "binary_exponent q =
      (if (2::rat) powi (int ?la - int ?lb) \<le> q then int ?la - int ?lb else int ?la - int ?lb - 1)"
    by (simp add: binary_exponent_def ab Let_def)
  show ?thesis
  proof (cases "(2::rat) powi (int ?la - int ?lb) \<le> q")
    case True
    note ba = floorlog_int_bounds [OF p(1)]
    note bb = floorlog_int_bounds [OF p(2)]
    have "of_int a / of_int b < (2::rat) ^ ?la / 2 ^ (?lb - 1)"
      using ba(2) bb(1) p by (intro frac_less) simp_all
    also have "\<dots> = 2 powi (int ?la - int (?lb - 1))"
      by (simp add: power_int_diff)
    also have "\<dots> = 2 powi (int ?la - int ?lb + 1)"
      using bb(3) by (simp add: of_nat_diff algebra_simps)
    finally have "q < (2::rat) powi (int ?la - int ?lb + 1)"
      by (simp only: p(3))
    with True show ?thesis by (simp add: be)
  next
    case False
    then show ?thesis by (simp add: be)
  qed
qed

lemma binary_exponent_unique:
  assumes "0 < q" "2 powi e \<le> q" "q < 2 powi (e + 1)"
  shows "binary_exponent q = e"
proof -
  let ?b = "binary_exponent q"
  have "(2::rat) powi e < 2 powi (?b + 1)"
    using assms(2) binary_exponent_gt [OF assms(1)] by simp
  then have "e < ?b + 1"
    by (metis not_less power_int_increasing one_le_numeral)
  moreover have "(2::rat) powi ?b < 2 powi (e + 1)"
    using assms(3) binary_exponent_le [OF assms(1)] by simp
  then have "?b < e + 1"
    by (metis not_less power_int_increasing one_le_numeral)
  ultimately show ?thesis by simp
qed

lemma round_half_even_error: "\<bar>of_int (round_half_even m) - m\<bar> \<le> 1 / 2"
proof -
  have "of_int \<lfloor>m\<rfloor> \<le> m" "m < of_int \<lfloor>m\<rfloor> + 1" by linarith+
  then show ?thesis
    by (auto simp: round_half_even_def Let_def)
qed

lemma double_round_error:
  assumes "0 \<le> q"
  shows "\<bar>double_round q - q\<bar> \<le> q / 2 ^ 53"
proof (cases "q = 0")
  case True
  then show ?thesis by (simp add: double_round_def)
next
  case False
  with assms have pos: "0 < q" by simp
  define e where "e = binary_exponent q"
  define u :: rat where "u = 2 powi (e - 52)"
  have u: "0 < u" by (simp add: u_def)
  have dr: "double_round q = of_int (round_half_even (q / u)) * u"
    using pos by (simp add: double_round_def u_def e_def Let_def)
  have "\<bar>double_round q - q\<bar> = \<bar>of_int (round_half_even (q / u)) - q / u\<bar> * u"
    using u by (simp add: dr abs_mult [symmetric] left_diff_distrib abs_mult_pos)
  also have "\<dots> \<le> (1 / 2) * u"
    using u round_half_even_error [of "q / u"] by (intro mult_right_mono) simp_all
  also have "\<dots> = 2 powi e / 2 ^ 53"
    by (simp add: u_def power_int_diff)
  also have "\<dots> \<le> q / 2 ^ 53"
    using binary_exponent_le [OF pos] by (simp add: e_def divide_right_mono)
  finally show ?thesis .
qed

lemma rate_value_error:
  fixes h n :: nat
  assumes "0 < n" "h \<le> n"
  shows "\<bar>double_round (double_round (of_nat h / of_nat n) * 100) - 100 * (of_nat h / of_nat n)\<bar>
           \<le> 300 / 2 ^ 53"
proof -
  define x0 :: rat where "x0 = of_nat h / of_nat n"
  define x where "x = double_round x0"
  define y where "y = double_round (x * 100)"
  have x0: "0 \<le> x0" "x0 \<le> 1"
    using assms by (simp_all add: x0_def)
  have ex: "\<bar>x - x0\<bar> \<le> x0 / 2 ^ 53"
    unfolding x_def using x0(1) by (rule double_round_error)
  have small: "x0 / 2 ^ 53 \<le> 1 / 2 ^ 53"
    using x0(2) by (simp add: divide_right_mono)
  have "x0 / 2 ^ 53 \<le> x0"
    using x0(1) by (simp add: field_simps)
  with ex have xpos: "0 \<le> x" by linarith
  have "(1::rat) / 2 ^ 53 \<le> 1" by simp
  with ex small x0 have x2: "x \<le> 2" by linarith
  have ey: "\<bar>y - x * 100\<bar> \<le> x * 100 / 2 ^ 53"
    unfolding y_def using xpos by (intro double_round_error) simp
  have "x * 100 / 2 ^ 53 \<le> 200 / 2 ^ 53"
    using x2 by (simp add: divide_right_mono)
  with ey ex small have "\<bar>y - 100 * x0\<bar> \<le> 300 / 2 ^ 53"
    by linarith
  then show ?thesis by (simp add: y_def x_def x0_def)
qed

lemma Math_round_near:
  fixes m d :: int and y delta :: rat
  assumes d: "0 < d"
    and near: "\<bar>y + 1 / 2 - of_int m / of_int d\<bar> \<le> delta"
    and delta: "delta < 1 / of_int d"
  shows "m mod d \<noteq> 0 \<Longrightarrow> Math_round y = m div d"
    and "Math_round y = m div d \<or> Math_round y = m div d - 1"
proof -
  define R where "R = m div d"
  define r where "r = m mod d"
  have m: "m = d * R + r" by (simp add: R_def r_def)
  have r: "0 \<le> r" "r \<le> d - 1" using d by (simp_all add: r_def) 
  have dq: "(0::rat) < of_int d" using d by simp
  have t: "of_int m / of_int d = of_int R + of_int r / (of_int d :: rat)"
    using dq by (simp add: m field_simps)
  have hi: "of_int r / (of_int d :: rat) \<le> 1 - 1 / of_int d"
  proof -
    have "(of_int r :: rat) \<le> of_int d - 1" using r(2) by (metis of_int_1 of_int_diff of_int_le_iff)
    then have "of_int r / (of_int d :: rat) \<le> (of_int d - 1) / of_int d"
      using dq by (simp add: divide_right_mono)
    also have "\<dots> = 1 - 1 / of_int d" using dq by (simp add: field_simps)
    finally show ?thesis .
  qed
  have lo0: "0 \<le> of_int r / (of_int d :: rat)" using r(1) dq by simp
  have d1: "1 / (of_int d :: rat) \<le> 1" using d by simp
  have up: "y + 1 / 2 < of_int R + 1"
    using near delta t hi by (simp add: abs_le_iff) 
  have down: "of_int R - 1 < y + 1 / 2"
    using near delta t lo0 d1 by (simp add: abs_le_iff)
  show "Math_round y = m div d \<or> Math_round y = m div d - 1"
  proof (cases "of_int R \<le> y + 1 / 2")
    case True
    with up have "\<lfloor>y + 1 / 2\<rfloor> = R" by (simp add: floor_unique)
    then show ?thesis by (simp add: Math_round_def R_def)
  next
    case False
    with down have "\<lfloor>y + 1 / 2\<rfloor> = R - 1" by (intro floor_unique) simp_all
    then show ?thesis by (simp add: Math_round_def R_def)
  qed
  assume "m mod d \<noteq> 0"
  with r(1) have "1 \<le> r" by (simp add: r_def)
  then have "(1::rat) \<le> of_int r" by (metis of_int_1 of_int_le_iff)
  then have "1 / of_int d \<le> of_int r / (of_int d :: rat)"
    using dq by (simp add: divide_right_mono)
  with near delta t have "of_int R \<le> y + 1 / 2" by (simp add: abs_le_iff)
  with up have "\<lfloor>y + 1 / 2\<rfloor> = R" by (simp add: floor_unique)
  then show "Math_round y = m div d" by (simp add: Math_round_def R_def)
qed


subsection \<open>The rate against the rounded percentage\<close>

lemma percent_as_quotient:
  fixes h n :: nat
  assumes "0 < n"
  shows "of_int (int (200 * h + n)) / of_int (int (2 * n)) = 100 * (of_nat h / of_nat n) + (1 / 2 :: rat)"
  using assms by (simp add: field_simps)

lemma round_percent:
  fixes h n :: nat
  assumes "0 < n"
  shows "round (100 * (of_nat h / of_nat n) :: rat) = int (200 * h + n) div int (2 * n)"
proof -
  have "round (100 * (of_nat h / of_nat n) :: rat) =
      \<lfloor>of_int (int (200 * h + n)) / (of_int (int (2 * n)) :: rat)\<rfloor>"
    by (simp only: round_def percent_as_quotient [OF assms])
  then show ?thesis by (simp only: floor_divide_of_int_eq)
qed

lemma tie_free:
  fixes h n :: nat
  assumes "0 < n" "frac (100 * (of_nat h / of_nat n) :: rat) \<noteq> 1 / 2"
  shows "int (200 * h + n) mod int (2 * n) \<noteq> 0"
proof
  assume z: "int (200 * h + n) mod int (2 * n) = 0"
  define R where "R = int (200 * h + n) div int (2 * n)"
  from z have "int (200 * h + n) = int (2 * n) * R"
    unfolding R_def by (metis mult_div_mod_eq add.right_neutral)
  then have "(of_int (int (200 * h + n)) :: rat) = of_int (int (2 * n)) * of_int R"
    by (metis of_int_mult)
  then have "of_int (int (200 * h + n)) / of_int (int (2 * n)) = (of_int R :: rat)"
    using assms(1) by simp
  with percent_as_quotient [OF assms(1), of h]
  have "100 * (of_nat h / of_nat n) - (1 / 2 :: rat) = of_int (R - 1)"
    by simp
  then have "100 * (of_nat h / of_nat n) - (1 / 2 :: rat) \<in> \<int>"
    by (metis Ints_of_int)
  then have "frac (100 * (of_nat h / of_nat n) :: rat) = 1 / 2"
    by (intro iffD2 [OF frac_unique_iff] conjI) simp_all
  with assms(2) show False by simp
qed

text \<open>
  Claim C4, amended. For a non-empty list of \<open>N\<close> results (an array has fewer than
  \<open>2\<^sup>3\<^sup>2\<close> elements) the summary reports as healed the number of results with
  \<^verbatim>\<open>success\<close> true, healed and failed sum to \<open>N\<close>, and the rate, computed in doubles as
  \<^verbatim>\<open>Math.round((healed / N) * 100)\<close>, is \<open>round (100 * healed / N)\<close> whenever
  \<open>100 * healed / N\<close> is not exactly halfway between two integers; at a halfway value it
  is that rounding or one less.
\<close>

theorem healing_summary_counts_and_rate:
  assumes "healingResults \<noteq> []" "length healingResults < 2 ^ 32"
  shows "ov_healed (generateHealingSummary healingResults) = length (filter hr_success healingResults) \<and>
    ov_total (generateHealingSummary healingResults) = length healingResults \<and>
    int (ov_healed (generateHealingSummary healingResults)) + ov_failed (generateHealingSummary healingResults)
      = int (length healingResults) \<and>
    (\<exists>rate. ov_rate (generateHealingSummary healingResults) = Some rate \<and>
       (rate = round (100 * (of_nat (length (filter hr_success healingResults)) /
                              of_nat (length healingResults)) :: rat) \<or>
        rate = round (100 * (of_nat (length (filter hr_success healingResults)) /
                              of_nat (length healingResults)) :: rat) - 1) \<and>
       (frac (100 * (of_nat (length (filter hr_success healingResults)) /
                      of_nat (length healingResults)) :: rat) \<noteq> 1 / 2 \<longrightarrow>
        rate = round (100 * (of_nat (length (filter hr_success healingResults)) /
                              of_nat (length healingResults)) :: rat)))"
proof -
  define n where "n = length healingResults"
  define h where "h = length (filter hr_success healingResults)"
  define y where "y = double_round (double_round (of_nat h / of_nat n) * 100)"
  from assms(1) have n: "0 < n" by (simp add: n_def)
  have hn: "h \<le> n" by (simp add: h_def n_def)
  have rate: "ov_rate (generateHealingSummary healingResults) = Some (Math_round y)"
    using n by (simp add: generateHealingSummary_def Let_def y_def h_def n_def)
  have d: "0 < int (2 * n)" using n by simp
  have near: "\<bar>y + 1 / 2 - of_int (int (200 * h + n)) / of_int (int (2 * n))\<bar> \<le> 300 / 2 ^ 53"
    using rate_value_error [OF n hn] by (simp only: percent_as_quotient [OF n] y_def)
  have "n < 2 ^ 32" using assms(2) by (simp add: n_def)
  then have "300 * rat_of_nat (2 * n) < 2 ^ 53"
  proof -
    from \<open>n < 2 ^ 32\<close> have "rat_of_nat n < rat_of_nat (2 ^ 32)" by (simp only: of_nat_less_iff)
    then show ?thesis by simp
  qed
  then have delta: "(300 / 2 ^ 53 :: rat) < 1 / of_int (int (2 * n))"
    using n by (simp add: field_simps)
  note mr = Math_round_near [OF d near delta]
  have counts: "ov_healed (generateHealingSummary healingResults) = h"
      "ov_total (generateHealingSummary healingResults) = n"
      "ov_failed (generateHealingSummary healingResults) = int n - int h"
    by (simp_all add: generateHealingSummary_def Let_def h_def n_def)
  have r1: "Math_round y = round (100 * (of_nat h / of_nat n) :: rat) \<or>
      Math_round y = round (100 * (of_nat h / of_nat n) :: rat) - 1"
    using mr(2) by (simp only: round_percent [OF n])
  have r2: "Math_round y = round (100 * (of_nat h / of_nat n) :: rat)"
    if "frac (100 * (of_nat h / of_nat n) :: rat) \<noteq> 1 / 2"
    using mr(1) [OF tie_free [OF n that]] by (simp only: round_percent [OF n])
  from counts rate r1 r2 show ?thesis
    unfolding h_def [symmetric] n_def [symmetric] by auto
qed

lemma round_half_even_eqI:
  assumes "of_int z - 1 / 2 < m" "m < of_int z + 1 / 2"
  shows "round_half_even m = z"
proof -
  have "of_int (z - 1) \<le> m" using assms(1) by simp
  then have lo: "z - 1 \<le> \<lfloor>m\<rfloor>" by (simp only: le_floor_iff)
  have "m < of_int (z + 1)" using assms(2) by simp
  then have "\<lfloor>m\<rfloor> < z + 1" by (simp only: floor_less_iff)
  with lo consider "\<lfloor>m\<rfloor> = z" | "\<lfloor>m\<rfloor> = z - 1" by linarith
  then show ?thesis
  proof cases
    case 1
    with assms(2) show ?thesis by (simp add: round_half_even_def Let_def)
  next
    case 2
    with assms(1) show ?thesis by (simp add: round_half_even_def Let_def)
  qed
qed

lemma double_23_40: "double_round (23 / 40) = 2589569785738035 / 4503599627370496"
proof -
  have "binary_exponent (23 / 40) = - 1"
    by (rule binary_exponent_unique) simp_all
  moreover have "round_half_even (23 / 40 / 2 powi (- 1 - 52)) = 5179139571476070"
    by (rule round_half_even_eqI) simp_all
  ultimately show ?thesis
    by (simp add: double_round_def Let_def)
qed

lemma double_23_40_times_100:
  "double_round (64739244643450875 / 1125899906842624) = 8092405580431359 / 140737488355328"
proof -
  have "binary_exponent (64739244643450875 / 1125899906842624) = 5"
    by (rule binary_exponent_unique) simp_all
  moreover have "round_half_even (64739244643450875 / 1125899906842624 / 2 powi (5 - 52))
      = 8092405580431359"
    by (rule round_half_even_eqI) simp_all
  ultimately show ?thesis
    by (simp add: double_round_def Let_def)
qed

text \<open>
  Claim C4, as stated, fails: with 23 healed of 40 the percentage is 57.5 exactly, whose
  rounding is 58; but \<open>23 / 40\<close> is not a double, the product of its double with 100 is the
  double just below 57.5, and the summary reports 57.
\<close>

theorem success_rate_counterexample:
  "ov_healed (generateHealingSummary (replicate 23 example_healed @ replicate 17 example_unhealed)) = 23 \<and>
   ov_total (generateHealingSummary (replicate 23 example_healed @ replicate 17 example_unhealed)) = 40 \<and>
   ov_rate (generateHealingSummary (replicate 23 example_healed @ replicate 17 example_unhealed)) = Some 57 \<and>
   round (100 * (23 / 40) :: rat) = 58"
proof -
  have s: "hr_success example_healed" "\<not> hr_success example_unhealed"
    by (simp_all add: example_healed_def example_unhealed_def caught_result_def)
  have "Math_round (8092405580431359 / 140737488355328) = 57"
    unfolding Math_round_def by (rule floor_unique) simp_all
  moreover have "round (100 * (23 / 40) :: rat) = 58"
    unfolding round_def by (rule floor_unique) simp_all
  ultimately show ?thesis
    using s by (simp add: generateHealingSummary_def Let_def double_23_40 double_23_40_times_100)
qed

text \<open>
  An instance: one healed of three gives 33.
\<close>

theorem healing_summary_counts_and_rate_witness:
  "ov_healed (generateHealingSummary [example_healed, example_unhealed, example_unhealed]) = 1 \<and>
   ov_failed (generateHealingSummary [example_healed, example_unhealed, example_unhealed]) = 2 \<and>
   ov_rate (generateHealingSummary [example_healed, example_unhealed, example_unhealed]) = Some 33"
proof -
  let ?rs = "[example_healed, example_unhealed, example_unhealed]"
  have s: "hr_success example_healed" "\<not> hr_success example_unhealed"
    by (simp_all add: example_healed_def example_unhealed_def caught_result_def)
  have ne: "?rs \<noteq> []" and small: "length ?rs < 2 ^ 32" by simp_all
  have f: "length (filter hr_success ?rs) = 1" "length ?rs = 3" using s by simp_all
  have fl: "\<lfloor>100 / 3 :: rat\<rfloor> = 33" "\<lfloor>100 / 3 + 1 / 2 :: rat\<rfloor> = 33"
    by (rule floor_unique, simp, simp)+
  have fr: "frac (100 * (of_nat 1 / of_nat 3) :: rat) \<noteq> 1 / 2"
    using fl(1) by (simp add: frac_def)
  have rd: "round (100 * (of_nat 1 / of_nat 3) :: rat) = 33"
    using fl(2) by (simp add: round_def)
  from healing_summary_counts_and_rate [OF ne small] fr rd show ?thesis
    unfolding f by auto
qed

end
